theory Spec2Isabelle
  imports Main "HOL-Library.Word"
begin

unbundle bit_operations_syntax

section \<open>Bytes and machine words\<close>

text \<open>
  The probes of \<^verbatim>\<open>src/monitor_ebpf.c\<close> fill a C struct on their stack and hand its
  bytes to a perf buffer. A \<^verbatim>\<open>u32\<close> is a 32-bit word, a \<^verbatim>\<open>u64\<close> a 64-bit word,
  and a C \<^verbatim>\<open>int\<close> a 32-bit word read in two's complement by \<open>sint\<close>.
\<close>

type_synonym byte = "8 word"
type_synonym u32 = "32 word"
type_synonym u64 = "64 word"
type_synonym c_int = "32 word"

text \<open>The \<open>n\<close> bytes of a word, least significant first.\<close>

definition le_bytes :: "nat \<Rightarrow> 'a::len word \<Rightarrow> byte list" where
  "le_bytes n w = map (\<lambda>i. ucast (drop_bit (8 * i) w)) [0..<n]"

fun le_word :: "byte list \<Rightarrow> 'a::len word" where
  "le_word [] = 0"
| "le_word (b # bs) = ucast b OR push_bit 8 (le_word bs)"

text \<open>
  The record is written in the byte order of the host; \<open>be\<close> is \<open>True\<close> on a
  big-endian host.
\<close>

definition word_bytes :: "bool \<Rightarrow> nat \<Rightarrow> 'a::len word \<Rightarrow> byte list" where
  "word_bytes be n w = (if be then rev (le_bytes n w) else le_bytes n w)"

definition bytes_word :: "bool \<Rightarrow> byte list \<Rightarrow> 'a::len word" where
  "bytes_word be bs = le_word (if be then rev bs else bs)"

section \<open>Stack memory\<close>

text \<open>
  The stack frame of a probe, as bytes indexed from the address of its local
  \<^verbatim>\<open>data\<close>. What the frame holds when the probe starts is whatever earlier kernel
  code left there.
\<close>

type_synonym stack = "nat \<Rightarrow> byte"

definition store :: "stack \<Rightarrow> nat \<Rightarrow> byte list \<Rightarrow> stack" where
  "store m a bs = (\<lambda>i. if a \<le> i \<and> i < a + length bs then bs ! (i - a) else m i)"

definition load :: "stack \<Rightarrow> nat \<Rightarrow> nat \<Rightarrow> byte list" where
  "load m a n = map m [a..<a + n]"

definition memset :: "stack \<Rightarrow> nat \<Rightarrow> byte \<Rightarrow> nat \<Rightarrow> stack" where
  "memset m a c n = store m a (replicate n c)"

definition put_u32 :: "bool \<Rightarrow> stack \<Rightarrow> nat \<Rightarrow> u32 \<Rightarrow> stack" where
  "put_u32 be m a w = store m a (word_bytes be 4 w)"

definition put_u64 :: "bool \<Rightarrow> stack \<Rightarrow> nat \<Rightarrow> u64 \<Rightarrow> stack" where
  "put_u64 be m a w = store m a (word_bytes be 8 w)"

section \<open>The record: struct data_t\<close>

text \<open>
  Modelled from the spec: \<^verbatim>\<open>TASK_COMM_LEN\<close> comes from the kernel header
  \<^verbatim>\<open>linux/sched.h\<close>, which is not part of the repository; the spec gives \<^verbatim>\<open>comm\<close>
  16 bytes, terminator included.
\<close>

definition TASK_COMM_LEN :: nat where
  "TASK_COMM_LEN = 16"

text \<open>
  The members of \<^verbatim>\<open>struct data_t\<close> in the order of their declaration, each with its
  size and its alignment in bytes.
\<close>

definition data_t :: "(string \<times> nat \<times> nat) list" where
  "data_t =
    [(''pid'', 4, 4),
     (''comm'', TASK_COMM_LEN, 1),
     (''filename'', 256, 1),
     (''syscall'', 4, 4),
     (''fd'', 4, 4),
     (''count'', 8, 8)]"

definition align_up :: "nat \<Rightarrow> nat \<Rightarrow> nat" where
  "align_up n a = ((n + a - 1) div a) * a"

text \<open>
  The C rule for the layout of a struct: each member at the first multiple of its
  alignment that follows the member before it.
\<close>

fun member_offsets :: "nat \<Rightarrow> (string \<times> nat \<times> nat) list \<Rightarrow> (string \<times> nat) list" where
  "member_offsets pos [] = []"
| "member_offsets pos ((nm, sz, al) # ms) =
    (nm, align_up pos al) # member_offsets (align_up pos al + sz) ms"

fun members_end :: "nat \<Rightarrow> (string \<times> nat \<times> nat) list \<Rightarrow> nat" where
  "members_end pos [] = pos"
| "members_end pos ((nm, sz, al) # ms) = members_end (align_up pos al + sz) ms"

definition offsetof :: "string \<Rightarrow> nat" where
  "offsetof nm = (case map_of (member_offsets 0 data_t) nm of Some a \<Rightarrow> a | None \<Rightarrow> 0)"

definition sizeof_data_t :: nat where
  "sizeof_data_t = align_up (members_end 0 data_t) (foldr max (map (\<lambda>(nm, sz, al). al) data_t) 1)"

text \<open>Reading the members back out of the bytes of a record.\<close>

definition member :: "byte list \<Rightarrow> nat \<Rightarrow> nat \<Rightarrow> byte list" where
  "member r a n = take n (drop a r)"

definition data_pid :: "bool \<Rightarrow> byte list \<Rightarrow> u32" where
  "data_pid be r = bytes_word be (member r (offsetof ''pid'') 4)"

definition data_comm :: "byte list \<Rightarrow> byte list" where
  "data_comm r = member r (offsetof ''comm'') TASK_COMM_LEN"

definition data_filename :: "byte list \<Rightarrow> byte list" where
  "data_filename r = member r (offsetof ''filename'') 256"

definition data_syscall :: "bool \<Rightarrow> byte list \<Rightarrow> c_int" where
  "data_syscall be r = bytes_word be (member r (offsetof ''syscall'') 4)"

definition data_fd :: "bool \<Rightarrow> byte list \<Rightarrow> c_int" where
  "data_fd be r = bytes_word be (member r (offsetof ''fd'') 4)"

definition data_count :: "bool \<Rightarrow> byte list \<Rightarrow> u64" where
  "data_count be r = bytes_word be (member r (offsetof ''count'') 8)"

text \<open>The string a char buffer holds: its bytes before the first NUL.\<close>

definition cstring :: "byte list \<Rightarrow> byte list" where
  "cstring bs = takeWhile (\<lambda>c. c \<noteq> 0) bs"

section \<open>The kernel as the probes see it\<close>

text \<open>
  The current task, the memory of the calling process (\<open>None\<close> at an address that
  cannot be read) and the byte order of the host.
\<close>

record kernel =
  task_tgid :: u32
  task_pid :: u32
  task_comm :: "byte list"
  user_mem :: "u64 \<Rightarrow> byte option"
  big_endian :: bool

text \<open>
  Modelled from the spec: the helper \<^verbatim>\<open>bpf_get_current_pid_tgid\<close> is kernel code, not
  part of the repository. It returns the combined value
  \<^verbatim>\<open>tgid << 32 | pid\<close>: the thread-group id in the upper 32 bits, the thread id in
  the lower 32 bits.
\<close>

definition bpf_get_current_pid_tgid :: "kernel \<Rightarrow> u64" where
  "bpf_get_current_pid_tgid k = push_bit 32 (ucast (task_tgid k)) OR ucast (task_pid k)"

text \<open>
  Modelled from the spec: the helper \<^verbatim>\<open>bpf_get_current_comm\<close> is kernel code, not part
  of the repository. It copies the short name of the current task into the buffer,
  at most \<open>sz - 1\<close> bytes of it, and fills the rest of the buffer with NUL bytes.
\<close>

definition strscpy_pad :: "byte list \<Rightarrow> nat \<Rightarrow> byte list" where
  "strscpy_pad src sz =
    (let s = take (sz - 1) (cstring src) in s @ replicate (sz - length s) 0)"

definition bpf_get_current_comm :: "kernel \<Rightarrow> stack \<Rightarrow> nat \<Rightarrow> nat \<Rightarrow> int \<times> stack" where
  "bpf_get_current_comm k m buf sz = (0, store m buf (strscpy_pad (task_comm k) sz))"

text \<open>
  Modelled from the spec: the helper \<^verbatim>\<open>bpf_probe_read_user_str\<close> is kernel code, not
  part of the repository. It copies the user string byte by byte, stopping at the
  first NUL or at the capacity of the buffer, whichever comes first, and always
  NUL-terminates what it stored; a read that faults leaves an empty string (the
  whole buffer zeroed) and a negative result.

  \<open>do_strncpy_from_user\<close> gives the bytes stored before the copy stops, the NUL
  included when it was reached, or \<open>None\<close> when a read faults.
\<close>

fun do_strncpy_from_user :: "(u64 \<Rightarrow> byte option) \<Rightarrow> u64 \<Rightarrow> nat \<Rightarrow> byte list option" where
  "do_strncpy_from_user um src 0 = Some []"
| "do_strncpy_from_user um src (Suc n) =
    (case um src of
       None \<Rightarrow> None
     | Some c \<Rightarrow>
         if c = 0 then Some [c]
         else map_option ((#) c) (do_strncpy_from_user um (src + 1) n))"

definition EFAULT :: int where
  "EFAULT = 14"

definition bpf_probe_read_user_str :: "kernel \<Rightarrow> stack \<Rightarrow> nat \<Rightarrow> nat \<Rightarrow> u64 \<Rightarrow> int \<times> stack" where
  "bpf_probe_read_user_str k m dst sz unsafe_ptr =
    (if sz = 0 then (0, m)
     else case do_strncpy_from_user (user_mem k) unsafe_ptr sz of
       None \<Rightarrow> (- EFAULT, memset m dst 0 sz)
     | Some bs \<Rightarrow>
         if 0 \<in> set bs then (int (length bs), store m dst bs)
         else (int sz, store (store m dst bs) (dst + sz - 1) [0]))"

section \<open>The output channel\<close>

text \<open>
  Modelled from the spec: \<^verbatim>\<open>BPF_PERF_OUTPUT\<close> and \<^verbatim>\<open>perf_submit\<close> are provided by the
  BPF toolchain, not by the repository. The channel is a bounded ring; a submission
  copies \<open>sz\<close> bytes from the stack into it, and when the ring is full the record
  is dropped and a loss counter incremented.
\<close>

record perf_channel =
  ring :: "byte list list"
  capacity :: nat
  lost :: nat

definition ENOSPC :: int where
  "ENOSPC = 28"

definition perf_submit :: "perf_channel \<Rightarrow> stack \<Rightarrow> nat \<Rightarrow> nat \<Rightarrow> int \<times> perf_channel" where
  "perf_submit events m data sz =
    (if length (ring events) < capacity events
     then (0, events\<lparr>ring := ring events @ [load m data sz]\<rparr>)
     else (- ENOSPC, events\<lparr>lost := lost events + 1\<rparr>))"

section \<open>The three probes\<close>

text \<open>
  The tracepoint arguments each probe reads: \<^verbatim>\<open>args->filename\<close>, \<^verbatim>\<open>args->fd\<close> and
  \<^verbatim>\<open>args->count\<close>, \<^verbatim>\<open>args->pathname\<close>.
\<close>

record openat_args =
  args_filename :: u64

record write_args =
  args_fd :: c_int
  args_count :: u64

record unlinkat_args =
  args_pathname :: u64

text \<open>
  Each probe is split in two: the statements that fill \<^verbatim>\<open>data\<close> (from its
  declaration to the last assignment), and the probe itself, which submits the
  filled record and returns.
\<close>

definition openat_fill :: "kernel \<Rightarrow> stack \<Rightarrow> openat_args \<Rightarrow> stack" where
  "openat_fill k stk args =
    (let be = big_endian k;
         data = memset stk 0 0 sizeof_data_t;
         data = put_u32 be data (offsetof ''syscall'') 1;
         data = put_u32 be data (offsetof ''pid'') (ucast (drop_bit 32 (bpf_get_current_pid_tgid k)));
         data = snd (bpf_get_current_comm k data (offsetof ''comm'') TASK_COMM_LEN);
         data = snd (bpf_probe_read_user_str k data (offsetof ''filename'') 256 (args_filename args));
         data = put_u32 be data (offsetof ''fd'') (- 1);
         data = put_u64 be data (offsetof ''count'') 0
     in data)"

definition sys_enter_openat :: "kernel \<Rightarrow> perf_channel \<Rightarrow> stack \<Rightarrow> openat_args \<Rightarrow> int \<times> perf_channel" where
  "sys_enter_openat k events stk args =
    (let data = openat_fill k stk args;
         events = snd (perf_submit events data 0 sizeof_data_t)
     in (0, events))"

definition write_fill :: "kernel \<Rightarrow> stack \<Rightarrow> write_args \<Rightarrow> stack" where
  "write_fill k stk args =
    (let be = big_endian k;
         data = memset stk 0 0 sizeof_data_t;
         data = put_u32 be data (offsetof ''syscall'') 2;
         data = put_u32 be data (offsetof ''pid'') (ucast (drop_bit 32 (bpf_get_current_pid_tgid k)));
         data = snd (bpf_get_current_comm k data (offsetof ''comm'') TASK_COMM_LEN);
         data = store data (offsetof ''filename'' + 0) [0];
         data = put_u32 be data (offsetof ''fd'') (args_fd args);
         data = put_u64 be data (offsetof ''count'') (args_count args)
     in data)"

definition sys_enter_write :: "kernel \<Rightarrow> perf_channel \<Rightarrow> stack \<Rightarrow> write_args \<Rightarrow> int \<times> perf_channel" where
  "sys_enter_write k events stk args =
    (let data = write_fill k stk args;
         events = snd (perf_submit events data 0 sizeof_data_t)
     in (0, events))"

definition unlinkat_fill :: "kernel \<Rightarrow> stack \<Rightarrow> unlinkat_args \<Rightarrow> stack" where
  "unlinkat_fill k stk args =
    (let be = big_endian k;
         data = memset stk 0 0 sizeof_data_t;
         data = put_u32 be data (offsetof ''syscall'') 3;
         data = put_u32 be data (offsetof ''pid'') (ucast (drop_bit 32 (bpf_get_current_pid_tgid k)));
         data = snd (bpf_get_current_comm k data (offsetof ''comm'') TASK_COMM_LEN);
         data = snd (bpf_probe_read_user_str k data (offsetof ''filename'') 256 (args_pathname args));
         data = put_u32 be data (offsetof ''fd'') (- 1);
         data = put_u64 be data (offsetof ''count'') 0
     in data)"

definition sys_enter_unlinkat :: "kernel \<Rightarrow> perf_channel \<Rightarrow> stack \<Rightarrow> unlinkat_args \<Rightarrow> int \<times> perf_channel" where
  "sys_enter_unlinkat k events stk args =
    (let data = unlinkat_fill k stk args;
         events = snd (perf_submit events data 0 sizeof_data_t)
     in (0, events))"

text \<open>The record a probe hands to the channel: the bytes of its \<^verbatim>\<open>data\<close>.\<close>

definition openat_record :: "kernel \<Rightarrow> stack \<Rightarrow> openat_args \<Rightarrow> byte list" where
  "openat_record k stk args = load (openat_fill k stk args) 0 sizeof_data_t"

definition write_record :: "kernel \<Rightarrow> stack \<Rightarrow> write_args \<Rightarrow> byte list" where
  "write_record k stk args = load (write_fill k stk args) 0 sizeof_data_t"

definition unlinkat_record :: "kernel \<Rightarrow> stack \<Rightarrow> unlinkat_args \<Rightarrow> byte list" where
  "unlinkat_record k stk args = load (unlinkat_fill k stk args) 0 sizeof_data_t"

text \<open>The syscall that was entered decides which probe fires.\<close>

datatype tracepoint =
  Openat openat_args
| Write write_args
| Unlinkat unlinkat_args

fun fire :: "kernel \<Rightarrow> perf_channel \<Rightarrow> stack \<Rightarrow> tracepoint \<Rightarrow> int \<times> perf_channel" where
  "fire k events stk (Openat args) = sys_enter_openat k events stk args"
| "fire k events stk (Write args) = sys_enter_write k events stk args"
| "fire k events stk (Unlinkat args) = sys_enter_unlinkat k events stk args"

fun record_of :: "kernel \<Rightarrow> stack \<Rightarrow> tracepoint \<Rightarrow> byte list" where
  "record_of k stk (Openat args) = openat_record k stk args"
| "record_of k stk (Write args) = write_record k stk args"
| "record_of k stk (Unlinkat args) = unlinkat_record k stk args"

section \<open>User strings\<close>

text \<open>The bytes \<open>s\<close> can be read from user memory at \<open>p\<close>.\<close>

fun user_bytes :: "(u64 \<Rightarrow> byte option) \<Rightarrow> u64 \<Rightarrow> byte list \<Rightarrow> bool" where
  "user_bytes um p [] = True"
| "user_bytes um p (b # bs) = (um p = Some b \<and> user_bytes um (p + 1) bs)"

text \<open>A readable C string \<open>s\<close> at \<open>p\<close>: its bytes, none of them NUL, then a NUL.\<close>

definition user_string :: "(u64 \<Rightarrow> byte option) \<Rightarrow> u64 \<Rightarrow> byte list \<Rightarrow> bool" where
  "user_string um p s = (user_bytes um p (s @ [0]) \<and> 0 \<notin> set s)"

text \<open>
  A source path \<open>s\<close> at \<open>p\<close> as the copy meets it: readable bytes, none of them NUL,
  that either end in a NUL or run on past the 255 bytes the buffer can take.
\<close>

definition user_path :: "(u64 \<Rightarrow> byte option) \<Rightarrow> u64 \<Rightarrow> byte list \<Rightarrow> bool" where
  "user_path um p s =
    (0 \<notin> set s \<and> (user_bytes um p (s @ [0]) \<or> (255 < length s \<and> user_bytes um p s)))"

section \<open>Reading a record\<close>

text \<open>
  What the path copy leaves in the \<^verbatim>\<open>filename\<close> member when that member is all
  zero beforehand, as it is in both probes that copy a path.
\<close>

definition copied_path :: "kernel \<Rightarrow> u64 \<Rightarrow> byte list" where
  "copied_path k p =
    load (snd (bpf_probe_read_user_str k (\<lambda>_. 0) (offsetof ''filename'') 256 p))
      (offsetof ''filename'') 256"

text \<open>
  The pathname argument as a string, for any pointer: the bytes at the pointer before
  the first NUL, as far as they can be read, among the first \<open>n\<close>.
\<close>

fun pathname_argument :: "(u64 \<Rightarrow> byte option) \<Rightarrow> u64 \<Rightarrow> nat \<Rightarrow> byte list" where
  "pathname_argument um p 0 = []"
| "pathname_argument um p (Suc n) =
    (case um p of
       None \<Rightarrow> []
     | Some c \<Rightarrow> if c = 0 then [] else c # pathname_argument um (p + 1) n)"

text \<open>The read of the path faults before the copy is complete.\<close>

definition path_read_faults :: "kernel \<Rightarrow> u64 \<Rightarrow> bool" where
  "path_read_faults k p = (do_strncpy_from_user (user_mem k) p 256 = None)"

text \<open>The code each probe stores in \<^verbatim>\<open>data.syscall\<close>.\<close>

fun syscall_code :: "tracepoint \<Rightarrow> c_int" where
  "syscall_code (Openat args) = 1"
| "syscall_code (Write args) = 2"
| "syscall_code (Unlinkat args) = 3"

text \<open>
  The invariants of the schema: the kind is one of the three codes, \<^verbatim>\<open>fd\<close> is \<open>-1\<close>
  and \<^verbatim>\<open>count\<close> is \<open>0\<close> for the kinds 1 and 3, and the path is empty for the kind 2.
\<close>

definition schema_ok :: "bool \<Rightarrow> byte list \<Rightarrow> bool" where
  "schema_ok be r =
    ((data_syscall be r = 1 \<or> data_syscall be r = 2 \<or> data_syscall be r = 3) \<and>
     (data_syscall be r = 1 \<or> data_syscall be r = 3 \<longrightarrow>
        data_fd be r = - 1 \<and> sint (data_fd be r) = - 1 \<and> data_count be r = 0) \<and>
     (data_syscall be r = 2 \<longrightarrow> cstring (data_filename r) = []))"

text \<open>
  The layout as the table of the specification orders it, kind first, to be compared
  with \<open>data_t\<close>, the declaration in the source.
\<close>

definition spec_data_t :: "(string \<times> nat \<times> nat) list" where
  "spec_data_t =
    [(''syscall'', 4, 4),
     (''pid'', 4, 4),
     (''comm'', TASK_COMM_LEN, 1),
     (''filename'', 256, 1),
     (''fd'', 4, 4),
     (''count'', 8, 8)]"

section \<open>Example inputs\<close>

text \<open>
  A little-endian host running the task \<^verbatim>\<open>bash\<close> (thread group 7, thread 9). Its
  user memory holds the string \<^verbatim>\<open>/a\<close> at address \<open>0x1000\<close>; nothing else can be
  read.
\<close>

definition demo_mem :: "u64 \<Rightarrow> byte option" where
  "demo_mem a =
    (if a = 0x1000 then Some 47
     else if a = 0x1001 then Some 97
     else if a = 0x1002 then Some 0
     else None)"

definition demo_kernel :: kernel where
  "demo_kernel =
    \<lparr>task_tgid = 7, task_pid = 9, task_comm = [98, 97, 115, 104, 0],
     user_mem = demo_mem, big_endian = False\<rparr>"

text \<open>The same host with a user memory that holds the letter \<^verbatim>\<open>A\<close> at every address.\<close>

definition flood_kernel :: kernel where
  "flood_kernel = demo_kernel\<lparr>user_mem := (\<lambda>a. Some 65)\<rparr>"

definition demo_stack :: stack where
  "demo_stack = (\<lambda>i. 0xAA)"

definition demo_channel :: perf_channel where
  "demo_channel = \<lparr>ring = [], capacity = 8, lost = 0\<rparr>"

text \<open>
  The same host with a user memory in which only the byte at \<open>0x5000\<close> can be read,
  the letter \<^verbatim>\<open>A\<close>; and the same host with no readable user memory at all.
\<close>

definition edge_mem :: "u64 \<Rightarrow> byte option" where
  "edge_mem a = (if a = 0x5000 then Some 65 else None)"

definition edge_kernel :: kernel where
  "edge_kernel = demo_kernel\<lparr>user_mem := edge_mem\<rparr>"

definition blank_mem :: "u64 \<Rightarrow> byte option" where
  "blank_mem a = None"

definition blank_kernel :: kernel where
  "blank_kernel = demo_kernel\<lparr>user_mem := blank_mem\<rparr>"

definition other_stack :: stack where
  "other_stack = (\<lambda>i. 0x55)"

section \<open>Words and bytes\<close>

lemma le_bytes_Suc: "le_bytes (Suc n) w = ucast w # le_bytes n (drop_bit 8 w)"
proof -
  have "[0..<Suc n] = 0 # map Suc [0..<n]"
    by (simp add: upt_conv_Cons map_Suc_upt del: upt_Suc)
  then show ?thesis
    by (simp add: le_bytes_def comp_def add.commute del: upt_Suc)
qed

lemma le_word_le_bytes:
  "(le_word (le_bytes n w) :: 'a::len word) = take_bit (8 * n) (w :: 'a word)"
proof (induction n arbitrary: w)
  case 0
  then show ?case by (simp add: le_bytes_def)
next
  case (Suc n)
  show ?case
    unfolding le_bytes_Suc le_word.simps Suc
    by (rule bit_word_eqI) (auto simp add: bit_simps)
qed

lemma length_word_bytes [simp]: "length (word_bytes be n w) = n"
  by (simp add: word_bytes_def le_bytes_def)

lemma bytes_word_u32 [simp]: "bytes_word be (word_bytes be 4 (w :: 32 word)) = w"
  by (simp add: bytes_word_def word_bytes_def le_word_le_bytes take_bit_word_eq_self)

lemma bytes_word_u64 [simp]: "bytes_word be (word_bytes be 8 (w :: 64 word)) = w"
  by (simp add: bytes_word_def word_bytes_def le_word_le_bytes take_bit_word_eq_self)

section \<open>The layout computed from the declaration\<close>

lemma offsets:
  "offsetof ''pid'' = 0" "offsetof ''comm'' = 4" "offsetof ''filename'' = 20"
  "offsetof ''syscall'' = 276" "offsetof ''fd'' = 280" "offsetof ''count'' = 288"
  "sizeof_data_t = 296"
  by (simp_all add: offsetof_def sizeof_data_t_def data_t_def align_up_def TASK_COMM_LEN_def)

section \<open>Loads and stores\<close>

lemma length_load [simp]: "length (load m a n) = n"
  by (simp add: load_def)

lemma nth_load [simp]: "i < n \<Longrightarrow> load m a n ! i = m (a + i)"
  by (simp add: load_def)

lemma load_zero: "load (\<lambda>_. 0) a n = replicate n 0"
  by (rule nth_equalityI) simp_all

lemma load_append: "load m a (n + n') = load m a n @ load m (a + n) n'"
  by (rule nth_equalityI) (auto simp add: nth_append add.assoc)

lemma load_store_same: "load (store m a bs) a (length bs) = bs"
  by (rule nth_equalityI) (simp_all add: store_def)

lemma load_store_eq: "length bs = n \<Longrightarrow> load (store m a bs) a n = bs"
  using load_store_same [of m a bs] by simp

lemma load_store_other:
  "a' + n \<le> a \<or> a + length bs \<le> a' \<Longrightarrow> load (store m a bs) a' n = load m a' n"
  by (rule nth_equalityI) (auto simp add: store_def)

lemma load_store_prefix:
  "length bs \<le> n \<Longrightarrow> load (store m a bs) a n = bs @ load m (a + length bs) (n - length bs)"
  by (rule nth_equalityI) (auto simp add: store_def nth_append)

lemma load_memset:
  "a \<le> a' \<Longrightarrow> a' + n' \<le> a + n \<Longrightarrow> load (memset m a c n) a' n' = replicate n' c"
  by (rule nth_equalityI) (auto simp add: memset_def store_def)

lemma store_outside: "i < a \<or> a + length bs \<le> i \<Longrightarrow> store m a bs i = m i"
  by (auto simp add: store_def)

lemma load_record_split:
  "load m 0 296 = load m 0 4 @ load m 4 16 @ load m 20 256 @ load m 276 4 @ load m 280 4
     @ load m 284 4 @ load m 288 8"
proof -
  have "load m 0 296 = load m 0 (4 + (16 + (256 + (4 + (4 + (4 + 8))))))" by simp
  also have "\<dots> = load m 0 4 @ load m 4 16 @ load m 20 256 @ load m 276 4 @ load m 280 4
     @ load m 284 4 @ load m 288 8"
    by (simp only: load_append) simp
  finally show ?thesis .
qed

section \<open>C strings\<close>

lemma cstring_padded: "0 \<notin> set s \<Longrightarrow> cstring (s @ replicate n 0) = s"
proof -
  assume "0 \<notin> set s"
  then have "takeWhile (\<lambda>c. c \<noteq> 0) (s @ replicate n (0::byte)) = s @ takeWhile (\<lambda>c. c \<noteq> 0) (replicate n 0)"
    by (intro takeWhile_append2) auto
  also have "takeWhile (\<lambda>c. c \<noteq> 0) (replicate n (0::byte)) = []"
    by (cases n) simp_all
  finally show ?thesis by (simp add: cstring_def)
qed

lemma cstring_no_nul: "0 \<notin> set (cstring bs)"
  by (auto simp add: cstring_def dest: set_takeWhileD)

lemma length_strscpy_pad [simp]: "length (strscpy_pad src sz) = sz"
  by (simp add: strscpy_pad_def Let_def)

lemma cstring_strscpy_pad: "cstring (strscpy_pad src sz) = take (sz - 1) (cstring src)"
proof -
  have "0 \<notin> set (take (sz - 1) (cstring src))"
    using cstring_no_nul [of src] by (auto dest: in_set_takeD)
  then show ?thesis
    by (simp add: strscpy_pad_def Let_def cstring_padded)
qed

lemma strscpy_pad_shape:
  "strscpy_pad src sz =
     cstring (strscpy_pad src sz) @ replicate (sz - length (cstring (strscpy_pad src sz))) 0"
  unfolding cstring_strscpy_pad by (simp add: strscpy_pad_def Let_def)

section \<open>The combined pid and tgid\<close>

lemma tgid_of_pid_tgid: "(ucast (drop_bit 32 (bpf_get_current_pid_tgid k)) :: u32) = task_tgid k"
  unfolding bpf_get_current_pid_tgid_def
  by (rule bit_word_eqI) (auto simp add: bit_simps dest: bit_imp_le_length)

section \<open>The copy of a user string\<close>

lemma user_bytes_append:
  "user_bytes um p (s @ t) \<Longrightarrow> user_bytes um p s"
  by (induction s arbitrary: p) auto

lemma user_bytes_const: "user_bytes (\<lambda>a. Some c) p (replicate n c)"
  by (induction n arbitrary: p) auto

lemma length_do_strncpy:
  "do_strncpy_from_user um p n = Some bs \<Longrightarrow> length bs \<le> n"
  by (induction n arbitrary: p bs) (auto split: option.splits if_splits)

lemma do_strncpy_no_nul:
  "do_strncpy_from_user um p n = Some bs \<Longrightarrow> 0 \<notin> set bs \<Longrightarrow> length bs = n"
  by (induction n arbitrary: p bs) (auto split: option.splits if_splits)

lemma do_strncpy_nul:
  "do_strncpy_from_user um p n = Some bs \<Longrightarrow> 0 \<in> set bs \<Longrightarrow>
   \<exists>s. bs = s @ [0] \<and> 0 \<notin> set s"
proof (induction n arbitrary: p bs)
  case 0
  then show ?case by simp
next
  case (Suc n)
  from Suc.prems obtain c where c: "um p = Some c"
    by (auto split: option.splits)
  show ?case
  proof (cases "c = 0")
    case True
    then have "bs = [] @ [0]" using Suc.prems c by simp
    then show ?thesis by (metis empty_iff empty_set)
  next
    case False
    then obtain bs' where bs': "do_strncpy_from_user um (p + 1) n = Some bs'" "bs = c # bs'"
      using Suc.prems c by auto
    then have "0 \<in> set bs'" using Suc.prems(2) False by auto
    then obtain s where "bs' = s @ [0]" "0 \<notin> set s"
      using Suc.IH bs'(1) by blast
    then have "bs = (c # s) @ [0] \<and> 0 \<notin> set (c # s)"
      using bs'(2) False by auto
    then show ?thesis by blast
  qed
qed

lemma do_strncpy_fault:
  "user_bytes um p s \<Longrightarrow> 0 \<notin> set s \<Longrightarrow> um (p + of_nat (length s)) = None \<Longrightarrow>
   length s < n \<Longrightarrow> do_strncpy_from_user um p n = None"
proof (induction s arbitrary: p n)
  case Nil
  then show ?case by (cases n) auto
next
  case (Cons c s)
  then show ?case by (cases n) (auto simp add: add.assoc)
qed

lemma do_strncpy_string:
  "user_bytes um p (s @ [0]) \<Longrightarrow> 0 \<notin> set s \<Longrightarrow> length s < n \<Longrightarrow>
   do_strncpy_from_user um p n = Some (s @ [0])"
proof (induction s arbitrary: p n)
  case Nil
  then show ?case by (cases n) auto
next
  case (Cons c s)
  then show ?case by (cases n) auto
qed

lemma do_strncpy_long:
  "user_bytes um p s \<Longrightarrow> 0 \<notin> set s \<Longrightarrow> n \<le> length s \<Longrightarrow>
   do_strncpy_from_user um p n = Some (take n s)"
proof (induction s arbitrary: p n)
  case Nil
  then show ?case by simp
next
  case (Cons c s)
  then show ?case by (cases n) auto
qed

lemma probe_read_outside:
  "i < dst \<or> dst + sz \<le> i \<Longrightarrow> snd (bpf_probe_read_user_str k m dst sz p) i = m i"
  by (auto simp add: bpf_probe_read_user_str_def memset_def store_def
      dest!: length_do_strncpy split: option.splits)

lemma probe_read_load_other:
  "a + n \<le> dst \<or> dst + sz \<le> a \<Longrightarrow>
   load (snd (bpf_probe_read_user_str k m dst sz p)) a n = load m a n"
  by (rule nth_equalityI) (auto simp add: probe_read_outside)

lemma probe_read_zeroed:
  assumes "load m dst sz = replicate sz 0"
  shows "load (snd (bpf_probe_read_user_str k m dst sz p)) dst sz =
         load (snd (bpf_probe_read_user_str k (\<lambda>_. 0) dst sz p)) dst sz"
proof (rule nth_equalityI)
  fix i assume "i < length (load (snd (bpf_probe_read_user_str k m dst sz p)) dst sz)"
  then have i: "i < sz" by simp
  have "load m dst sz ! i = 0" using i by (simp only: assms nth_replicate)
  then have z: "m (dst + i) = 0" using i by simp
  show "load (snd (bpf_probe_read_user_str k m dst sz p)) dst sz ! i =
        load (snd (bpf_probe_read_user_str k (\<lambda>_. 0) dst sz p)) dst sz ! i"
    using i z by (auto simp add: bpf_probe_read_user_str_def memset_def store_def split: option.splits)
qed simp

lemma length_copied_path [simp]: "length (copied_path k p) = 256"
  by (simp add: copied_path_def)

lemma copied_path_fault:
  "path_read_faults k p \<Longrightarrow> copied_path k p = replicate 256 0"
  by (simp add: path_read_faults_def copied_path_def bpf_probe_read_user_str_def load_memset)

lemma copied_path_short:
  assumes "user_bytes (user_mem k) p (s @ [0])" and "0 \<notin> set s" and "length s < 256"
  shows "copied_path k p = s @ replicate (256 - length s) 0"
proof -
  have c: "do_strncpy_from_user (user_mem k) p 256 = Some (s @ [0])"
    using assms by (rule do_strncpy_string)
  have "load (store (\<lambda>_. 0) 20 (s @ [0])) 20 256 =
      (s @ [0]) @ load (\<lambda>_. 0) (20 + length (s @ [0])) (256 - length (s @ [0]))"
    using assms(3) by (intro load_store_prefix) simp
  also have "\<dots> = s @ replicate (Suc (256 - length (s @ [0]))) 0"
    by (simp add: load_zero)
  also have "Suc (256 - length (s @ [0::byte])) = 256 - length s"
    using assms(3) by simp
  finally show ?thesis
    using c by (simp add: copied_path_def bpf_probe_read_user_str_def offsets)
qed

lemma copied_path_long:
  assumes "user_bytes (user_mem k) p s" and "0 \<notin> set s" and "255 < length s"
  shows "copied_path k p = take 255 s @ [0]"
proof -
  have c: "do_strncpy_from_user (user_mem k) p 256 = Some (take 256 s)"
    using assms by (intro do_strncpy_long) simp_all
  have n: "0 \<notin> set (take 256 s)"
    using assms(2) by (auto dest: in_set_takeD)
  have "load (store (store (\<lambda>_. 0) 20 (take 256 s)) (20 + 256 - 1) [0]) 20 256 = take 255 s @ [0]"
    using assms(3) by (intro nth_equalityI) (auto simp add: store_def nth_append)
  then show ?thesis
    using c n by (simp add: copied_path_def bpf_probe_read_user_str_def offsets)
qed

lemma copied_path_user_path:
  assumes "user_path (user_mem k) p s"
  shows "copied_path k p = take 255 s @ replicate (256 - length (take 255 s)) 0"
proof (cases "255 < length s")
  case True
  have "user_bytes (user_mem k) p s"
    using assms by (auto simp add: user_path_def dest: user_bytes_append)
  then have "copied_path k p = take 255 s @ [0]"
    using assms True by (intro copied_path_long) (simp_all add: user_path_def)
  moreover have "256 - length (take 255 s) = 1" using True by simp
  ultimately show ?thesis by simp
next
  case False
  then have "copied_path k p = s @ replicate (256 - length s) 0"
    using assms by (intro copied_path_short) (auto simp add: user_path_def)
  then show ?thesis using False by simp
qed

lemma copied_path_shape:
  "\<exists>s. 0 \<notin> set s \<and> length s \<le> 255 \<and> copied_path k p = s @ replicate (256 - length s) 0"
proof (cases "do_strncpy_from_user (user_mem k) p 256")
  case None
  then have "copied_path k p = [] @ replicate (256 - length ([] :: byte list)) 0"
    by (simp add: copied_path_fault path_read_faults_def)
  then show ?thesis by (metis empty_iff empty_set le0 list.size(3))
next
  case (Some bs)
  show ?thesis
  proof (cases "0 \<in> set bs")
    case True
    then obtain s where s: "bs = s @ [0]" "0 \<notin> set s"
      using Some do_strncpy_nul by blast
    have len: "length s < 256"
      using length_do_strncpy [OF Some] s(1) by simp
    have "load (store (\<lambda>_. 0) 20 (s @ [0])) 20 256 =
        (s @ [0]) @ load (\<lambda>_. 0) (20 + length (s @ [0])) (256 - length (s @ [0]))"
      using len by (intro load_store_prefix) simp
    also have "\<dots> = s @ replicate (Suc (256 - length (s @ [0]))) 0"
      by (simp add: load_zero)
    also have "Suc (256 - length (s @ [0::byte])) = 256 - length s"
      using len by simp
    finally have "copied_path k p = s @ replicate (256 - length s) 0"
      using Some s(1) by (simp add: copied_path_def bpf_probe_read_user_str_def offsets)
    then show ?thesis using s(2) len by auto
  next
    case False
    have len: "length bs = 256" using Some False by (rule do_strncpy_no_nul)
    have "load (store (store (\<lambda>_. 0) 20 bs) (20 + 256 - 1) [0]) 20 256 = take 255 bs @ [0]"
      using len by (intro nth_equalityI) (auto simp add: store_def nth_append)
    then have "copied_path k p = take 255 bs @ replicate (256 - length (take 255 bs)) 0"
      using Some False len by (simp add: copied_path_def bpf_probe_read_user_str_def offsets)
    moreover have "0 \<notin> set (take 255 bs)" using False by (auto dest: in_set_takeD)
    moreover have "length (take 255 bs) \<le> 255" by simp
    ultimately show ?thesis by blast
  qed
qed

lemma copied_path_terminated:
  "0 \<in> set (copied_path k p)"
  "length (cstring (copied_path k p)) \<le> 255"
  "copied_path k p =
      cstring (copied_path k p) @ replicate (256 - length (cstring (copied_path k p))) 0"
proof -
  obtain s where s: "0 \<notin> set s" "length s \<le> 255" "copied_path k p = s @ replicate (256 - length s) 0"
    using copied_path_shape by blast
  have c: "cstring (copied_path k p) = s"
    using s(1) by (simp add: s(3) cstring_padded)
  show "length (cstring (copied_path k p)) \<le> 255" using c s(2) by simp
  show "copied_path k p =
      cstring (copied_path k p) @ replicate (256 - length (cstring (copied_path k p))) 0"
    unfolding c by (rule s(3))
  have "256 - length s = Suc (255 - length s)" using s(2) by simp
  then show "0 \<in> set (copied_path k p)" by (simp add: s(3))
qed

section \<open>What each probe leaves in its record\<close>

lemmas fill_simps =
  Let_def put_u32_def put_u64_def bpf_get_current_comm_def offsets TASK_COMM_LEN_def
  load_store_other load_store_eq probe_read_load_other load_memset tgid_of_pid_tgid

lemma openat_fill_filename:
  "load (openat_fill k stk args) 20 256 = copied_path k (args_filename args)"
proof -
  let ?m = "store (put_u32 (big_endian k) (put_u32 (big_endian k) (memset stk 0 0 296) 276 1) 0
      (task_tgid k)) 4 (strscpy_pad (task_comm k) 16)"
  have "load ?m 20 256 = replicate 256 0"
    by (simp add: fill_simps)
  then have "load (snd (bpf_probe_read_user_str k ?m 20 256 (args_filename args))) 20 256 =
      copied_path k (args_filename args)"
    unfolding copied_path_def offsets by (rule probe_read_zeroed)
  moreover have "load (openat_fill k stk args) 20 256 =
       load (snd (bpf_probe_read_user_str k ?m 20 256 (args_filename args))) 20 256"
    by (simp add: openat_fill_def fill_simps)
  ultimately show ?thesis by simp
qed

lemma openat_record_bytes:
  "openat_record k stk args =
     word_bytes (big_endian k) 4 (task_tgid k) @ strscpy_pad (task_comm k) 16 @
     copied_path k (args_filename args) @ word_bytes (big_endian k) 4 (1 :: c_int) @
     word_bytes (big_endian k) 4 (- 1 :: c_int) @ replicate 4 0 @
     word_bytes (big_endian k) 8 (0 :: u64)"
proof -
  have "load (openat_fill k stk args) 0 4 = word_bytes (big_endian k) 4 (task_tgid k)"
    and "load (openat_fill k stk args) 4 16 = strscpy_pad (task_comm k) 16"
    and "load (openat_fill k stk args) 276 4 = word_bytes (big_endian k) 4 (1 :: c_int)"
    and "load (openat_fill k stk args) 280 4 = word_bytes (big_endian k) 4 (- 1 :: c_int)"
    and "load (openat_fill k stk args) 284 4 = replicate 4 0"
    and "load (openat_fill k stk args) 288 8 = word_bytes (big_endian k) 8 (0 :: u64)"
    unfolding openat_fill_def by (simp_all add: fill_simps)
  then show ?thesis
    by (simp only: openat_record_def offsets load_record_split openat_fill_filename)
qed

lemma openat_fill_outside: "sizeof_data_t \<le> i \<Longrightarrow> openat_fill k stk args i = stk i"
  by (simp add: openat_fill_def fill_simps probe_read_outside store_outside memset_def)

lemma unlinkat_fill_filename:
  "load (unlinkat_fill k stk args) 20 256 = copied_path k (args_pathname args)"
proof -
  let ?m = "store (put_u32 (big_endian k) (put_u32 (big_endian k) (memset stk 0 0 296) 276 3) 0
      (task_tgid k)) 4 (strscpy_pad (task_comm k) 16)"
  have "load ?m 20 256 = replicate 256 0"
    by (simp add: fill_simps)
  then have "load (snd (bpf_probe_read_user_str k ?m 20 256 (args_pathname args))) 20 256 =
      copied_path k (args_pathname args)"
    unfolding copied_path_def offsets by (rule probe_read_zeroed)
  moreover have "load (unlinkat_fill k stk args) 20 256 =
       load (snd (bpf_probe_read_user_str k ?m 20 256 (args_pathname args))) 20 256"
    by (simp add: unlinkat_fill_def fill_simps)
  ultimately show ?thesis by simp
qed

lemma unlinkat_record_bytes:
  "unlinkat_record k stk args =
     word_bytes (big_endian k) 4 (task_tgid k) @ strscpy_pad (task_comm k) 16 @
     copied_path k (args_pathname args) @ word_bytes (big_endian k) 4 (3 :: c_int) @
     word_bytes (big_endian k) 4 (- 1 :: c_int) @ replicate 4 0 @
     word_bytes (big_endian k) 8 (0 :: u64)"
proof -
  have "load (unlinkat_fill k stk args) 0 4 = word_bytes (big_endian k) 4 (task_tgid k)"
    and "load (unlinkat_fill k stk args) 4 16 = strscpy_pad (task_comm k) 16"
    and "load (unlinkat_fill k stk args) 276 4 = word_bytes (big_endian k) 4 (3 :: c_int)"
    and "load (unlinkat_fill k stk args) 280 4 = word_bytes (big_endian k) 4 (- 1 :: c_int)"
    and "load (unlinkat_fill k stk args) 284 4 = replicate 4 0"
    and "load (unlinkat_fill k stk args) 288 8 = word_bytes (big_endian k) 8 (0 :: u64)"
    unfolding unlinkat_fill_def by (simp_all add: fill_simps)
  then show ?thesis
    by (simp only: unlinkat_record_def offsets load_record_split unlinkat_fill_filename)
qed

lemma unlinkat_fill_outside: "sizeof_data_t \<le> i \<Longrightarrow> unlinkat_fill k stk args i = stk i"
  by (simp add: unlinkat_fill_def fill_simps probe_read_outside store_outside memset_def)

lemma write_fill_filename: "load (write_fill k stk args) 20 256 = replicate 256 0"
proof -
  let ?m = "store (put_u32 (big_endian k) (put_u32 (big_endian k) (memset stk 0 0 296) 276 2) 0
      (task_tgid k)) 4 (strscpy_pad (task_comm k) 16)"
  have "load (store ?m 20 [0]) 20 256 = [0] @ load ?m (20 + length [0::byte]) (256 - length [0::byte])"
    by (rule load_store_prefix) simp
  also have "\<dots> = 0 # replicate 255 0"
    by (simp add: fill_simps)
  also have "\<dots> = replicate (Suc 255) 0"
    by (simp only: replicate_Suc)
  finally have "load (store ?m 20 [0]) 20 256 = replicate 256 0"
    by simp
  moreover have "load (write_fill k stk args) 20 256 = load (store ?m 20 [0]) 20 256"
    by (simp add: write_fill_def fill_simps)
  ultimately show ?thesis by simp
qed

lemma write_record_bytes:
  "write_record k stk args =
     word_bytes (big_endian k) 4 (task_tgid k) @ strscpy_pad (task_comm k) 16 @
     replicate 256 0 @ word_bytes (big_endian k) 4 (2 :: c_int) @
     word_bytes (big_endian k) 4 (args_fd args) @ replicate 4 0 @
     word_bytes (big_endian k) 8 (args_count args)"
proof -
  have "load (write_fill k stk args) 0 4 = word_bytes (big_endian k) 4 (task_tgid k)"
    and "load (write_fill k stk args) 4 16 = strscpy_pad (task_comm k) 16"
    and "load (write_fill k stk args) 276 4 = word_bytes (big_endian k) 4 (2 :: c_int)"
    and "load (write_fill k stk args) 280 4 = word_bytes (big_endian k) 4 (args_fd args)"
    and "load (write_fill k stk args) 284 4 = replicate 4 0"
    and "load (write_fill k stk args) 288 8 = word_bytes (big_endian k) 8 (args_count args)"
    unfolding write_fill_def by (simp_all add: fill_simps)
  then show ?thesis
    by (simp only: write_record_def offsets load_record_split write_fill_filename)
qed

lemma write_fill_outside: "sizeof_data_t \<le> i \<Longrightarrow> write_fill k stk args i = stk i"
  by (simp add: write_fill_def fill_simps store_outside memset_def)

text \<open>The members of the three records, read back.\<close>

lemmas member_simps = data_pid_def data_comm_def data_filename_def data_syscall_def
  data_fd_def data_count_def offsets TASK_COMM_LEN_def member_def

lemma openat_members:
  "data_pid (big_endian k) (openat_record k stk args) = task_tgid k"
  "data_comm (openat_record k stk args) = strscpy_pad (task_comm k) 16"
  "data_filename (openat_record k stk args) = copied_path k (args_filename args)"
  "data_syscall (big_endian k) (openat_record k stk args) = 1"
  "data_fd (big_endian k) (openat_record k stk args) = - 1"
  "data_count (big_endian k) (openat_record k stk args) = 0"
  "take 4 (drop 284 (openat_record k stk args)) = replicate 4 0"
  "length (openat_record k stk args) = 296"
  by (simp_all add: member_simps openat_record_bytes)

lemma write_members:
  "data_pid (big_endian k) (write_record k stk args) = task_tgid k"
  "data_comm (write_record k stk args) = strscpy_pad (task_comm k) 16"
  "data_filename (write_record k stk args) = replicate 256 0"
  "data_syscall (big_endian k) (write_record k stk args) = 2"
  "data_fd (big_endian k) (write_record k stk args) = args_fd args"
  "data_count (big_endian k) (write_record k stk args) = args_count args"
  "take 4 (drop 284 (write_record k stk args)) = replicate 4 0"
  "length (write_record k stk args) = 296"
  by (simp_all add: member_simps write_record_bytes)

lemma unlinkat_members:
  "data_pid (big_endian k) (unlinkat_record k stk args) = task_tgid k"
  "data_comm (unlinkat_record k stk args) = strscpy_pad (task_comm k) 16"
  "data_filename (unlinkat_record k stk args) = copied_path k (args_pathname args)"
  "data_syscall (big_endian k) (unlinkat_record k stk args) = 3"
  "data_fd (big_endian k) (unlinkat_record k stk args) = - 1"
  "data_count (big_endian k) (unlinkat_record k stk args) = 0"
  "take 4 (drop 284 (unlinkat_record k stk args)) = replicate 4 0"
  "length (unlinkat_record k stk args) = 296"
  by (simp_all add: member_simps unlinkat_record_bytes)

lemma cstring_zeros: "cstring (replicate n 0) = []"
  by (cases n) (simp_all add: cstring_def)

text \<open>What a probe does to the channel.\<close>

lemma fire_channel:
  "fire k events stk tp =
     (0, if length (ring events) < capacity events
         then events\<lparr>ring := ring events @ [record_of k stk tp]\<rparr>
         else events\<lparr>lost := lost events + 1\<rparr>)"
  by (cases tp)
    (simp_all add: sys_enter_openat_def sys_enter_write_def sys_enter_unlinkat_def Let_def
      perf_submit_def openat_record_def write_record_def unlinkat_record_def)

lemma openat_channel:
  "sys_enter_openat k events stk args =
     (0, if length (ring events) < capacity events
         then events\<lparr>ring := ring events @ [openat_record k stk args]\<rparr>
         else events\<lparr>lost := lost events + 1\<rparr>)"
  by (simp add: sys_enter_openat_def Let_def perf_submit_def openat_record_def)

lemma write_channel:
  "sys_enter_write k events stk args =
     (0, if length (ring events) < capacity events
         then events\<lparr>ring := ring events @ [write_record k stk args]\<rparr>
         else events\<lparr>lost := lost events + 1\<rparr>)"
  by (simp add: sys_enter_write_def Let_def perf_submit_def write_record_def)

lemma unlinkat_channel:
  "sys_enter_unlinkat k events stk args =
     (0, if length (ring events) < capacity events
         then events\<lparr>ring := ring events @ [unlinkat_record k stk args]\<rparr>
         else events\<lparr>lost := lost events + 1\<rparr>)"
  by (simp add: sys_enter_unlinkat_def Let_def perf_submit_def unlinkat_record_def)

text \<open>The path a record holds, for any pointer.\<close>

lemma pathname_argument_unfold:
  "0 < n \<Longrightarrow> pathname_argument um p n =
     (case um p of
        None \<Rightarrow> []
      | Some c \<Rightarrow> if c = 0 then [] else c # pathname_argument um (p + 1) (n - 1))"
  by (cases n) (simp_all split: option.splits)

lemma cstring_do_strncpy:
  "do_strncpy_from_user um p n = Some bs \<Longrightarrow> cstring bs = pathname_argument um p n"
  by (induction n arbitrary: p bs) (auto simp add: cstring_def split: option.splits if_splits)

lemma copied_path_cstring:
  "cstring (copied_path k p) =
     (if path_read_faults k p then [] else take 255 (pathname_argument (user_mem k) p 256))"
proof (cases "do_strncpy_from_user (user_mem k) p 256")
  case None
  then show ?thesis
    by (simp add: copied_path_fault path_read_faults_def cstring_zeros)
next
  case (Some bs)
  have a: "cstring bs = pathname_argument (user_mem k) p 256"
    using Some by (rule cstring_do_strncpy)
  have nf: "\<not> path_read_faults k p"
    using Some by (simp add: path_read_faults_def)
  show ?thesis
  proof (cases "0 \<in> set bs")
    case True
    then obtain s where s: "bs = s @ [0]" "0 \<notin> set s"
      using Some do_strncpy_nul by blast
    have len: "length s < 256"
      using length_do_strncpy [OF Some] s(1) by simp
    have "load (store (\<lambda>_. 0) 20 (s @ [0])) 20 256 =
        (s @ [0]) @ load (\<lambda>_. 0) (20 + length (s @ [0])) (256 - length (s @ [0]))"
      using len by (intro load_store_prefix) simp
    also have "\<dots> = s @ replicate (Suc (256 - length (s @ [0]))) 0"
      by (simp add: load_zero)
    finally have "copied_path k p = s @ replicate (Suc (256 - length (s @ [0]))) 0"
      using Some s(1) by (simp add: copied_path_def bpf_probe_read_user_str_def offsets)
    moreover have "cstring (s @ replicate (Suc (256 - length (s @ [0]))) 0) = s"
      using s(2) by (rule cstring_padded)
    ultimately have "cstring (copied_path k p) = s"
      by (simp only:)
    moreover have "cstring bs = s"
      using s cstring_padded [of s 1] by simp
    ultimately show ?thesis
      using a nf len by simp
  next
    case False
    have len: "length bs = 256" using Some False by (rule do_strncpy_no_nul)
    have "load (store (store (\<lambda>_. 0) 20 bs) (20 + 256 - 1) [0]) 20 256 = take 255 bs @ [0]"
      using len by (intro nth_equalityI) (auto simp add: store_def nth_append)
    then have "copied_path k p = take 255 bs @ replicate 1 0"
      using Some False len by (simp add: copied_path_def bpf_probe_read_user_str_def offsets)
    moreover have "0 \<notin> set (take 255 bs)" using False by (auto dest: in_set_takeD)
    then have "cstring (take 255 bs @ replicate 1 0) = take 255 bs"
      by (rule cstring_padded)
    ultimately have "cstring (copied_path k p) = take 255 bs"
      by (simp only:)
    moreover have "cstring bs = bs"
      using False cstring_padded [of bs 0] by simp
    ultimately show ?thesis
      using a nf by simp
  qed
qed

section \<open>The claims\<close>

text \<open>
  C1. In the \<^verbatim>\<open>openat\<close> and \<^verbatim>\<open>unlinkat\<close> probes the copy of the path stays inside the
  256-byte \<^verbatim>\<open>filename\<close> buffer: the stack behind the record keeps its content and the
  member \<^verbatim>\<open>syscall\<close>, stored before the copy right behind the buffer, keeps its code.
  The buffer always holds a NUL, so the stored path has at most 255 bytes. For a
  source path \<open>s\<close> the buffer holds the first 255 bytes of \<open>s\<close> and then only NUL
  bytes; when \<open>s\<close> is longer than 255 bytes, that is exactly the first 255 bytes of
  \<open>s\<close> followed by one NUL.
\<close>

theorem path_copy_bounded_terminated:
  "(\<forall>i. sizeof_data_t \<le> i \<longrightarrow>
      openat_fill k stk oa i = stk i \<and> unlinkat_fill k stk ua i = stk i) \<and>
   data_syscall (big_endian k) (openat_record k stk oa) = 1 \<and>
   data_syscall (big_endian k) (unlinkat_record k stk ua) = 3 \<and>
   length (data_filename (openat_record k stk oa)) = 256 \<and>
   length (data_filename (unlinkat_record k stk ua)) = 256 \<and>
   0 \<in> set (data_filename (openat_record k stk oa)) \<and>
   0 \<in> set (data_filename (unlinkat_record k stk ua)) \<and>
   length (cstring (data_filename (openat_record k stk oa))) \<le> 255 \<and>
   length (cstring (data_filename (unlinkat_record k stk ua))) \<le> 255 \<and>
   (user_path (user_mem k) (args_filename oa) s \<longrightarrow>
      data_filename (openat_record k stk oa) =
        take 255 s @ replicate (256 - length (take 255 s)) 0 \<and>
      (255 < length s \<longrightarrow> data_filename (openat_record k stk oa) = take 255 s @ [0])) \<and>
   (user_path (user_mem k) (args_pathname ua) t \<longrightarrow>
      data_filename (unlinkat_record k stk ua) =
        take 255 t @ replicate (256 - length (take 255 t)) 0 \<and>
      (255 < length t \<longrightarrow> data_filename (unlinkat_record k stk ua) = take 255 t @ [0]))"
proof -
  have long: "255 < length (u :: byte list) \<Longrightarrow> replicate (256 - length (take 255 u)) (0 :: byte) = [0]" for u
    by simp
  show ?thesis
    by (simp add: openat_fill_outside unlinkat_fill_outside openat_members unlinkat_members
        copied_path_terminated(1,2) copied_path_user_path long)
qed

theorem path_copy_bounded_terminated_witness:
  "data_filename (openat_record flood_kernel demo_stack \<lparr>args_filename = 0x2000\<rparr>) =
     replicate 255 65 @ [0] \<and>
   data_filename (unlinkat_record flood_kernel demo_stack \<lparr>args_pathname = 0x3000\<rparr>) =
     replicate 255 65 @ [0] \<and>
   openat_fill flood_kernel demo_stack \<lparr>args_filename = 0x2000\<rparr> 296 = 0xAA \<and>
   unlinkat_fill flood_kernel demo_stack \<lparr>args_pathname = 0x3000\<rparr> 296 = 0xAA"
proof -
  have p: "user_path (user_mem flood_kernel) q (replicate 300 65)" for q
    by (simp add: user_path_def flood_kernel_def user_bytes_const)
  have s: "sizeof_data_t \<le> 296"
    by (simp add: offsets)
  note t = path_copy_bounded_terminated [of flood_kernel demo_stack "\<lparr>args_filename = 0x2000\<rparr>"
      "\<lparr>args_pathname = 0x3000\<rparr>" "replicate 300 65" "replicate 300 65"]
  have "openat_fill flood_kernel demo_stack \<lparr>args_filename = 0x2000\<rparr> 296 = demo_stack 296"
    and "unlinkat_fill flood_kernel demo_stack \<lparr>args_pathname = 0x3000\<rparr> 296 = demo_stack 296"
    using t s by blast+
  moreover have "data_filename (openat_record flood_kernel demo_stack \<lparr>args_filename = 0x2000\<rparr>) =
     take 255 (replicate 300 65) @ [0]"
    and "data_filename (unlinkat_record flood_kernel demo_stack \<lparr>args_pathname = 0x3000\<rparr>) =
     take 255 (replicate 300 65) @ [0]"
    using t p by simp_all
  ultimately show ?thesis
    by (simp add: demo_stack_def)
qed

text \<open>
  C2. When the read of the path faults, the \<^verbatim>\<open>openat\<close> probe (and likewise the
  \<^verbatim>\<open>unlinkat\<close> probe) still submits its record and returns 0: the channel is left as
  \<^verbatim>\<open>perf_submit\<close> leaves it, with the record appended when the ring has room. That
  record carries the code of the syscall, the thread-group id and the name of the
  task, and a \<^verbatim>\<open>filename\<close> buffer that is all NUL, so an empty path. The read
  faults when a byte that cannot be read comes before any NUL among the first 256
  bytes at the pointer, so in particular when the pointer itself cannot be read.
\<close>

theorem failed_read_still_submits:
  "(user_bytes (user_mem k) p s \<and> 0 \<notin> set s \<and> length s < 256 \<and>
      user_mem k (p + of_nat (length s)) = None \<longrightarrow> path_read_faults k p) \<and>
   (path_read_faults k (args_filename oa) \<longrightarrow>
      fst (sys_enter_openat k events stk oa) = 0 \<and>
      snd (sys_enter_openat k events stk oa) =
        snd (perf_submit events (openat_fill k stk oa) 0 sizeof_data_t) \<and>
      (length (ring events) < capacity events \<longrightarrow>
        ring (snd (sys_enter_openat k events stk oa)) = ring events @ [openat_record k stk oa]) \<and>
      data_syscall (big_endian k) (openat_record k stk oa) = 1 \<and>
      data_pid (big_endian k) (openat_record k stk oa) = task_tgid k \<and>
      cstring (data_comm (openat_record k stk oa)) = take 15 (cstring (task_comm k)) \<and>
      data_filename (openat_record k stk oa) = replicate 256 0 \<and>
      cstring (data_filename (openat_record k stk oa)) = []) \<and>
   (path_read_faults k (args_pathname ua) \<longrightarrow>
      fst (sys_enter_unlinkat k events stk ua) = 0 \<and>
      snd (sys_enter_unlinkat k events stk ua) =
        snd (perf_submit events (unlinkat_fill k stk ua) 0 sizeof_data_t) \<and>
      (length (ring events) < capacity events \<longrightarrow>
        ring (snd (sys_enter_unlinkat k events stk ua)) = ring events @ [unlinkat_record k stk ua]) \<and>
      data_syscall (big_endian k) (unlinkat_record k stk ua) = 3 \<and>
      data_pid (big_endian k) (unlinkat_record k stk ua) = task_tgid k \<and>
      cstring (data_comm (unlinkat_record k stk ua)) = take 15 (cstring (task_comm k)) \<and>
      data_filename (unlinkat_record k stk ua) = replicate 256 0 \<and>
      cstring (data_filename (unlinkat_record k stk ua)) = [])"
proof -
  have a: "user_bytes (user_mem k) p s \<and> 0 \<notin> set s \<and> length s < 256 \<and>
      user_mem k (p + of_nat (length s)) = None \<longrightarrow> path_read_faults k p"
    by (auto simp add: path_read_faults_def intro: do_strncpy_fault)
  have b: "fst (sys_enter_openat k events stk oa) = 0 \<and>
      snd (sys_enter_openat k events stk oa) =
        snd (perf_submit events (openat_fill k stk oa) 0 sizeof_data_t) \<and>
      (length (ring events) < capacity events \<longrightarrow>
        ring (snd (sys_enter_openat k events stk oa)) = ring events @ [openat_record k stk oa])"
    by (simp add: sys_enter_openat_def Let_def perf_submit_def openat_record_def)
  have c: "fst (sys_enter_unlinkat k events stk ua) = 0 \<and>
      snd (sys_enter_unlinkat k events stk ua) =
        snd (perf_submit events (unlinkat_fill k stk ua) 0 sizeof_data_t) \<and>
      (length (ring events) < capacity events \<longrightarrow>
        ring (snd (sys_enter_unlinkat k events stk ua)) = ring events @ [unlinkat_record k stk ua])"
    by (simp add: sys_enter_unlinkat_def Let_def perf_submit_def unlinkat_record_def)
  have d: "path_read_faults k (args_filename oa) \<longrightarrow>
      data_syscall (big_endian k) (openat_record k stk oa) = 1 \<and>
      data_pid (big_endian k) (openat_record k stk oa) = task_tgid k \<and>
      cstring (data_comm (openat_record k stk oa)) = take 15 (cstring (task_comm k)) \<and>
      data_filename (openat_record k stk oa) = replicate 256 0 \<and>
      cstring (data_filename (openat_record k stk oa)) = []"
    by (simp add: openat_members copied_path_fault cstring_zeros cstring_strscpy_pad)
  have e: "path_read_faults k (args_pathname ua) \<longrightarrow>
      data_syscall (big_endian k) (unlinkat_record k stk ua) = 3 \<and>
      data_pid (big_endian k) (unlinkat_record k stk ua) = task_tgid k \<and>
      cstring (data_comm (unlinkat_record k stk ua)) = take 15 (cstring (task_comm k)) \<and>
      data_filename (unlinkat_record k stk ua) = replicate 256 0 \<and>
      cstring (data_filename (unlinkat_record k stk ua)) = []"
    by (simp add: unlinkat_members copied_path_fault cstring_zeros cstring_strscpy_pad)
  from a b c d e show ?thesis by blast
qed

theorem failed_read_still_submits_witness:
  "ring (snd (sys_enter_openat demo_kernel demo_channel demo_stack \<lparr>args_filename = 0\<rparr>)) =
     [openat_record demo_kernel demo_stack \<lparr>args_filename = 0\<rparr>] \<and>
   fst (sys_enter_openat demo_kernel demo_channel demo_stack \<lparr>args_filename = 0\<rparr>) = 0 \<and>
   data_syscall False (openat_record demo_kernel demo_stack \<lparr>args_filename = 0\<rparr>) = 1 \<and>
   data_pid False (openat_record demo_kernel demo_stack \<lparr>args_filename = 0\<rparr>) = 7 \<and>
   cstring (data_comm (openat_record demo_kernel demo_stack \<lparr>args_filename = 0\<rparr>)) =
     [98, 97, 115, 104] \<and>
   cstring (data_filename (openat_record demo_kernel demo_stack \<lparr>args_filename = 0\<rparr>)) = [] \<and>
   ring (snd (sys_enter_unlinkat demo_kernel demo_channel demo_stack \<lparr>args_pathname = 0\<rparr>)) =
     [unlinkat_record demo_kernel demo_stack \<lparr>args_pathname = 0\<rparr>] \<and>
   data_syscall False (unlinkat_record demo_kernel demo_stack \<lparr>args_pathname = 0\<rparr>) = 3 \<and>
   cstring (data_filename (unlinkat_record demo_kernel demo_stack \<lparr>args_pathname = 0\<rparr>)) = []"
proof -
  note t = failed_read_still_submits [of demo_kernel 0 "[]" "\<lparr>args_filename = 0\<rparr>" demo_channel
      demo_stack "\<lparr>args_pathname = 0\<rparr>"]
  have u: "user_bytes (user_mem demo_kernel) 0 [] \<and> 0 \<notin> set ([] :: byte list) \<and>
      length ([] :: byte list) < 256 \<and>
      user_mem demo_kernel (0 + of_nat (length ([] :: byte list))) = None"
    by (simp add: demo_kernel_def demo_mem_def)
  have f: "path_read_faults demo_kernel 0"
    using t u by blast
  have r: "length (ring demo_channel) < capacity demo_channel" "ring demo_channel = []"
    by (simp_all add: demo_channel_def)
  have c: "take 15 (cstring (task_comm demo_kernel)) = [98, 97, 115, 104]"
    "big_endian demo_kernel = False" "task_tgid demo_kernel = 7"
    by (simp_all add: demo_kernel_def cstring_def)
  from t f r c show ?thesis
    by (simp add: cstring_zeros perf_submit_def openat_record_def unlinkat_record_def)
qed

text \<open>
  C3. When the path argument of \<^verbatim>\<open>openat\<close> is a readable string of at most 255 bytes,
  the probe returns 0 and hands one record to the channel (appended to the ring when
  it has room, counted as a loss when it has not), and that record has the code 1, a
  path equal to that string, \<^verbatim>\<open>fd\<close> equal to \<open>-1\<close> and \<^verbatim>\<open>count\<close> equal to \<open>0\<close>.
\<close>

theorem openat_short_path_record:
  assumes "user_string (user_mem k) (args_filename args) s" and "length s \<le> 255"
  shows "sys_enter_openat k events stk args =
      (0, if length (ring events) < capacity events
          then events\<lparr>ring := ring events @ [openat_record k stk args]\<rparr>
          else events\<lparr>lost := lost events + 1\<rparr>) \<and>
    data_syscall (big_endian k) (openat_record k stk args) = 1 \<and>
    cstring (data_filename (openat_record k stk args)) = s \<and>
    data_fd (big_endian k) (openat_record k stk args) = - 1 \<and>
    sint (data_fd (big_endian k) (openat_record k stk args)) = - 1 \<and>
    data_count (big_endian k) (openat_record k stk args) = 0"
proof -
  have "copied_path k (args_filename args) = s @ replicate (256 - length s) 0"
    using assms by (intro copied_path_short) (simp_all add: user_string_def)
  moreover have "0 \<notin> set s"
    using assms(1) by (simp add: user_string_def)
  ultimately show ?thesis
    by (simp add: openat_members cstring_padded openat_channel)
qed

theorem openat_short_path_record_witness:
  "ring (snd (sys_enter_openat demo_kernel demo_channel demo_stack \<lparr>args_filename = 0x1000\<rparr>)) =
     [openat_record demo_kernel demo_stack \<lparr>args_filename = 0x1000\<rparr>] \<and>
   fst (sys_enter_openat demo_kernel demo_channel demo_stack \<lparr>args_filename = 0x1000\<rparr>) = 0 \<and>
   data_syscall False (openat_record demo_kernel demo_stack \<lparr>args_filename = 0x1000\<rparr>) = 1 \<and>
   cstring (data_filename (openat_record demo_kernel demo_stack \<lparr>args_filename = 0x1000\<rparr>)) =
     [47, 97] \<and>
   sint (data_fd False (openat_record demo_kernel demo_stack \<lparr>args_filename = 0x1000\<rparr>)) = - 1 \<and>
   data_count False (openat_record demo_kernel demo_stack \<lparr>args_filename = 0x1000\<rparr>) = 0"
proof -
  have u: "user_string (user_mem demo_kernel) (args_filename \<lparr>args_filename = 0x1000\<rparr>) [47, 97]"
    by (simp add: user_string_def demo_kernel_def demo_mem_def)
  have l: "length [47 :: byte, 97] \<le> 255"
    by simp
  have b: "big_endian demo_kernel = False"
    by (simp add: demo_kernel_def)
  have r: "length (ring demo_channel) < capacity demo_channel" "ring demo_channel = []"
    by (simp_all add: demo_channel_def)
  from openat_short_path_record [OF u l, of demo_channel demo_stack] b r show ?thesis
    by simp
qed

text \<open>
  C4. For every \<^verbatim>\<open>write\<close> the probe returns 0 and hands one record to the channel
  (appended to the ring when it has room, counted as a loss when it has not). That
  record has the code 2, an empty path (the whole buffer is NUL), and \<^verbatim>\<open>fd\<close> and
  \<^verbatim>\<open>count\<close> equal to the arguments of the syscall. The probe reads no user memory:
  neither the record nor the outcome of the probe changes when the user memory
  does.
\<close>

theorem write_record_fields:
  "sys_enter_write k events stk args =
     (0, if length (ring events) < capacity events
         then events\<lparr>ring := ring events @ [write_record k stk args]\<rparr>
         else events\<lparr>lost := lost events + 1\<rparr>) \<and>
   data_syscall (big_endian k) (write_record k stk args) = 2 \<and>
   data_filename (write_record k stk args) = replicate 256 0 \<and>
   cstring (data_filename (write_record k stk args)) = [] \<and>
   data_fd (big_endian k) (write_record k stk args) = args_fd args \<and>
   data_count (big_endian k) (write_record k stk args) = args_count args \<and>
   write_record (k\<lparr>user_mem := um\<rparr>) stk args = write_record k stk args \<and>
   sys_enter_write (k\<lparr>user_mem := um\<rparr>) events stk args = sys_enter_write k events stk args"
proof -
  have f: "write_fill (k\<lparr>user_mem := um\<rparr>) stk args = write_fill k stk args"
    by (simp add: write_fill_def bpf_get_current_comm_def bpf_get_current_pid_tgid_def)
  have "write_record (k\<lparr>user_mem := um\<rparr>) stk args = write_record k stk args"
    and "sys_enter_write (k\<lparr>user_mem := um\<rparr>) events stk args = sys_enter_write k events stk args"
    by (simp_all add: f write_record_def sys_enter_write_def)
  moreover have "sys_enter_write k events stk args =
     (0, if length (ring events) < capacity events
         then events\<lparr>ring := ring events @ [write_record k stk args]\<rparr>
         else events\<lparr>lost := lost events + 1\<rparr>)"
    by (rule write_channel)
  ultimately show ?thesis
    by (simp add: write_members cstring_zeros)
qed

text \<open>
  C5, as the specification states it: for every \<^verbatim>\<open>unlinkat\<close> the path of the record is
  the pathname argument, cut to 255 bytes. It is not when the read of the pathname
  faults part way: with the letter \<^verbatim>\<open>A\<close> at the pointer and no readable byte behind
  it, the pathname argument reads \<^verbatim>\<open>A\<close>, and the record the probe appends to the ring
  has an empty path.
\<close>

theorem unlinkat_unreadable_tail_counterexample:
  "pathname_argument (user_mem edge_kernel) 0x5000 256 = [65] \<and>
   ring (snd (sys_enter_unlinkat edge_kernel demo_channel demo_stack \<lparr>args_pathname = 0x5000\<rparr>)) =
     [unlinkat_record edge_kernel demo_stack \<lparr>args_pathname = 0x5000\<rparr>] \<and>
   data_syscall False (unlinkat_record edge_kernel demo_stack \<lparr>args_pathname = 0x5000\<rparr>) = 3 \<and>
   cstring (data_filename (unlinkat_record edge_kernel demo_stack \<lparr>args_pathname = 0x5000\<rparr>)) = [] \<and>
   cstring (data_filename (unlinkat_record edge_kernel demo_stack \<lparr>args_pathname = 0x5000\<rparr>)) \<noteq>
     take 255 (pathname_argument (user_mem edge_kernel) 0x5000 256)"
proof -
  have m: "user_mem edge_kernel = edge_mem" "big_endian edge_kernel = False"
    by (simp_all add: edge_kernel_def demo_kernel_def)
  have a: "pathname_argument (user_mem edge_kernel) 0x5000 256 = [65]"
    by (simp add: m pathname_argument_unfold edge_mem_def)
  have "do_strncpy_from_user edge_mem 0x5000 256 = None"
    by (rule do_strncpy_fault [of _ _ "[65]"]) (simp_all add: edge_mem_def)
  then have f: "path_read_faults edge_kernel 0x5000"
    by (simp add: path_read_faults_def m)
  have c: "cstring (data_filename (unlinkat_record edge_kernel demo_stack
      \<lparr>args_pathname = 0x5000\<rparr>)) = []"
    by (simp add: unlinkat_members copied_path_fault [OF f] cstring_zeros)
  have r: "ring (snd (sys_enter_unlinkat edge_kernel demo_channel demo_stack
      \<lparr>args_pathname = 0x5000\<rparr>)) =
     [unlinkat_record edge_kernel demo_stack \<lparr>args_pathname = 0x5000\<rparr>]"
    by (simp add: unlinkat_channel demo_channel_def)
  have k: "data_syscall False (unlinkat_record edge_kernel demo_stack
      \<lparr>args_pathname = 0x5000\<rparr>) = 3"
    using unlinkat_members(4) [of edge_kernel demo_stack "\<lparr>args_pathname = 0x5000\<rparr>"] m
    by simp
  from a c r k show ?thesis by simp
qed

text \<open>
  C5, amended: for every \<^verbatim>\<open>unlinkat\<close> the probe returns 0 and hands one record to the
  channel (appended to the ring when it has room, counted as a loss when it has not),
  and that record has the code 3, \<^verbatim>\<open>fd\<close> equal to \<open>-1\<close> and \<^verbatim>\<open>count\<close> equal to \<open>0\<close>. Its
  path is empty when the read of the pathname faults, and otherwise the pathname
  argument cut to its first 255 bytes; so for a source path \<open>s\<close> it is \<open>s\<close> cut to
  255 bytes.
\<close>

theorem unlinkat_record_fields:
  "sys_enter_unlinkat k events stk args =
     (0, if length (ring events) < capacity events
         then events\<lparr>ring := ring events @ [unlinkat_record k stk args]\<rparr>
         else events\<lparr>lost := lost events + 1\<rparr>) \<and>
   data_syscall (big_endian k) (unlinkat_record k stk args) = 3 \<and>
   data_fd (big_endian k) (unlinkat_record k stk args) = - 1 \<and>
   sint (data_fd (big_endian k) (unlinkat_record k stk args)) = - 1 \<and>
   data_count (big_endian k) (unlinkat_record k stk args) = 0 \<and>
   cstring (data_filename (unlinkat_record k stk args)) =
     (if path_read_faults k (args_pathname args) then []
      else take 255 (pathname_argument (user_mem k) (args_pathname args) 256)) \<and>
   (user_path (user_mem k) (args_pathname args) s \<longrightarrow>
      cstring (data_filename (unlinkat_record k stk args)) = take 255 s)"
proof -
  have "cstring (copied_path k (args_pathname args)) = take 255 s"
    if "user_path (user_mem k) (args_pathname args) s"
  proof -
    have "0 \<notin> set (take 255 s)"
      using that by (auto simp add: user_path_def dest: in_set_takeD)
    then have "cstring (take 255 s @ replicate (256 - length (take 255 s)) 0) = take 255 s"
      by (rule cstring_padded)
    then show ?thesis
      by (simp only: copied_path_user_path [OF that])
  qed
  moreover have "cstring (copied_path k (args_pathname args)) =
     (if path_read_faults k (args_pathname args) then []
      else take 255 (pathname_argument (user_mem k) (args_pathname args) 256))"
    by (rule copied_path_cstring)
  ultimately show ?thesis
    by (simp add: unlinkat_members unlinkat_channel)
qed

theorem unlinkat_record_fields_witness:
  "cstring (data_filename (unlinkat_record flood_kernel demo_stack \<lparr>args_pathname = 0x4000\<rparr>)) =
     replicate 255 65 \<and>
   cstring (data_filename (unlinkat_record demo_kernel demo_stack \<lparr>args_pathname = 0x1000\<rparr>)) =
     [47, 97] \<and>
   data_syscall False (unlinkat_record demo_kernel demo_stack \<lparr>args_pathname = 0x1000\<rparr>) = 3 \<and>
   ring (snd (sys_enter_unlinkat demo_kernel demo_channel demo_stack \<lparr>args_pathname = 0x1000\<rparr>)) =
     [unlinkat_record demo_kernel demo_stack \<lparr>args_pathname = 0x1000\<rparr>]"
proof -
  have p: "user_path (user_mem flood_kernel) (args_pathname \<lparr>args_pathname = 0x4000\<rparr>)
      (replicate 256 65)"
    by (simp add: user_path_def flood_kernel_def user_bytes_const)
  have q: "user_path (user_mem demo_kernel) (args_pathname \<lparr>args_pathname = 0x1000\<rparr>) [47, 97]"
    by (simp add: user_path_def demo_kernel_def demo_mem_def)
  have b: "big_endian demo_kernel = False"
    by (simp add: demo_kernel_def)
  have r: "length (ring demo_channel) < capacity demo_channel" "ring demo_channel = []"
    by (simp_all add: demo_channel_def)
  note t = unlinkat_record_fields [of flood_kernel demo_channel demo_stack
      "\<lparr>args_pathname = 0x4000\<rparr>" "replicate 256 65"]
  note t' = unlinkat_record_fields [of demo_kernel demo_channel demo_stack
      "\<lparr>args_pathname = 0x1000\<rparr>" "[47, 97]"]
  have "cstring (data_filename (unlinkat_record flood_kernel demo_stack
      \<lparr>args_pathname = 0x4000\<rparr>)) = take 255 (replicate 256 65)"
    using t p by blast
  moreover have "cstring (data_filename (unlinkat_record demo_kernel demo_stack
      \<lparr>args_pathname = 0x1000\<rparr>)) = take 255 [47, 97]"
    using t' q by blast
  moreover have "data_syscall False (unlinkat_record demo_kernel demo_stack
      \<lparr>args_pathname = 0x1000\<rparr>) = 3"
    using t' b by simp
  moreover have "sys_enter_unlinkat demo_kernel demo_channel demo_stack \<lparr>args_pathname = 0x1000\<rparr> =
     (0, if length (ring demo_channel) < capacity demo_channel
         then demo_channel\<lparr>ring := ring demo_channel @
           [unlinkat_record demo_kernel demo_stack \<lparr>args_pathname = 0x1000\<rparr>]\<rparr>
         else demo_channel\<lparr>lost := lost demo_channel + 1\<rparr>)"
    using t' by blast
  ultimately show ?thesis
    using r by simp
qed

text \<open>
  C6. Whatever probe fires and whatever its input, the record satisfies the schema:
  its kind is the code of the probe, one of 1, 2 and 3; \<^verbatim>\<open>fd\<close> is \<open>-1\<close> and \<^verbatim>\<open>count\<close> is
  \<open>0\<close> for the kinds 1 and 3; the path is empty for the kind 2. So a ring that holds
  only records of the schema still does after any probe has fired.
\<close>

theorem every_record_schema_ok:
  "schema_ok (big_endian k) (record_of k stk tp) \<and>
   data_syscall (big_endian k) (record_of k stk tp) = syscall_code tp \<and>
   (list_all (schema_ok (big_endian k)) (ring events) \<longrightarrow>
      list_all (schema_ok (big_endian k)) (ring (snd (fire k events stk tp))))"
proof -
  have s: "schema_ok (big_endian k) (record_of k stk tp)"
    by (cases tp)
      (simp_all add: schema_ok_def openat_members write_members unlinkat_members cstring_zeros)
  have c: "data_syscall (big_endian k) (record_of k stk tp) = syscall_code tp"
    by (cases tp) (simp_all add: openat_members write_members unlinkat_members)
  from s c show ?thesis
    by (simp add: fire_channel)
qed

theorem every_record_schema_ok_witness:
  "schema_ok False (record_of demo_kernel demo_stack (Write \<lparr>args_fd = 3, args_count = 4096\<rparr>)) \<and>
   data_syscall False (record_of demo_kernel demo_stack (Write \<lparr>args_fd = 3, args_count = 4096\<rparr>))
     = 2 \<and>
   cstring (data_filename (record_of demo_kernel demo_stack
     (Write \<lparr>args_fd = 3, args_count = 4096\<rparr>))) = [] \<and>
   list_all (schema_ok False) (ring (snd (fire demo_kernel demo_channel demo_stack
     (Write \<lparr>args_fd = 3, args_count = 4096\<rparr>))))"
proof -
  note t = every_record_schema_ok [of demo_kernel demo_stack
      "Write \<lparr>args_fd = 3, args_count = 4096\<rparr>" demo_channel]
  have b: "big_endian demo_kernel = False"
    by (simp add: demo_kernel_def)
  have r: "list_all (schema_ok (big_endian demo_kernel)) (ring demo_channel)"
    by (simp add: demo_channel_def)
  have k: "data_syscall False (record_of demo_kernel demo_stack
      (Write \<lparr>args_fd = 3, args_count = 4096\<rparr>)) = 2"
    using t b by simp
  have "schema_ok False (record_of demo_kernel demo_stack (Write \<lparr>args_fd = 3, args_count = 4096\<rparr>))"
    using t b by simp
  then have "cstring (data_filename (record_of demo_kernel demo_stack
      (Write \<lparr>args_fd = 3, args_count = 4096\<rparr>))) = []"
    using k unfolding schema_ok_def by blast
  with t b r k show ?thesis by simp
qed

text \<open>
  C7. In every record the member \<^verbatim>\<open>pid\<close> is the thread-group id of the calling task,
  the upper 32 bits of the combined value, whatever the thread id in its lower 32
  bits is.
\<close>

theorem pid_is_thread_group_id:
  "data_pid (big_endian k) (record_of k stk tp) = task_tgid k \<and>
   data_pid (big_endian k) (record_of k stk tp) = ucast (drop_bit 32 (bpf_get_current_pid_tgid k)) \<and>
   data_pid (big_endian k) (record_of (k\<lparr>task_pid := tid\<rparr>) stk tp) = task_tgid k"
proof -
  have "data_pid (big_endian k') (record_of k' stk tp) = task_tgid k'" for k'
    by (cases tp) (simp_all add: openat_members write_members unlinkat_members)
  from this [of k] this [of "k\<lparr>task_pid := tid\<rparr>"] show ?thesis
    by (simp add: tgid_of_pid_tgid)
qed

text \<open>
  C8, as the specification states it: the kind is the first member of the record,
  followed by \<^verbatim>\<open>pid\<close>, \<^verbatim>\<open>comm\<close>, the path, \<^verbatim>\<open>fd\<close> and the byte count. The declaration
  in the source orders the members otherwise: \<^verbatim>\<open>syscall\<close> is the fourth member, at
  offset 276, and the first four bytes of a record hold \<^verbatim>\<open>pid\<close>. In the record of a
  \<^verbatim>\<open>write\<close> by the task of thread group 7 they read 7 and not the code 2.
\<close>

theorem kind_first_layout_counterexample:
  "member_offsets 0 data_t \<noteq> member_offsets 0 spec_data_t \<and>
   offsetof ''syscall'' \<noteq> 0 \<and>
   (bytes_word False
      (member (write_record demo_kernel demo_stack \<lparr>args_fd = 3, args_count = 4096\<rparr>) 0 4) :: c_int)
     \<noteq> data_syscall False (write_record demo_kernel demo_stack \<lparr>args_fd = 3, args_count = 4096\<rparr>)"
proof -
  have b: "big_endian demo_kernel = False" "task_tgid demo_kernel = 7"
    by (simp_all add: demo_kernel_def)
  have "member (write_record demo_kernel demo_stack \<lparr>args_fd = 3, args_count = 4096\<rparr>) 0 4 =
      word_bytes False 4 (7 :: u32)"
    by (simp add: write_record_bytes member_def b)
  then have "(bytes_word False
      (member (write_record demo_kernel demo_stack \<lparr>args_fd = 3, args_count = 4096\<rparr>) 0 4) :: c_int) = 7"
    by simp
  moreover have "data_syscall False
      (write_record demo_kernel demo_stack \<lparr>args_fd = 3, args_count = 4096\<rparr>) = 2"
    using write_members(4) [of demo_kernel demo_stack "\<lparr>args_fd = 3, args_count = 4096\<rparr>"] b
    by simp
  moreover have "member_offsets 0 data_t \<noteq> member_offsets 0 spec_data_t"
    by (simp add: data_t_def spec_data_t_def)
  ultimately show ?thesis
    by (simp add: offsets)
qed

text \<open>
  C8, amended: the three probes share one layout of 296 bytes, with fixed offsets and
  sizes, in the order of the declaration: \<^verbatim>\<open>pid\<close> (4 bytes at offset 0), \<^verbatim>\<open>comm\<close>
  (16 bytes at 4), the path (256 bytes at 20), the kind (4 bytes at 276), \<^verbatim>\<open>fd\<close>
  (4 bytes at 280), 4 bytes of padding, and the byte count (8 bytes at 288).
\<close>

theorem record_layout:
  "member_offsets 0 data_t =
     [(''pid'', 0), (''comm'', 4), (''filename'', 20), (''syscall'', 276), (''fd'', 280),
      (''count'', 288)] \<and>
   sizeof_data_t = 296 \<and>
   length (record_of k stk tp) = sizeof_data_t \<and>
   record_of k stk tp =
     word_bytes (big_endian k) 4 (task_tgid k) @
     strscpy_pad (task_comm k) 16 @
     (case tp of
        Openat args \<Rightarrow> copied_path k (args_filename args)
      | Write args \<Rightarrow> replicate 256 0
      | Unlinkat args \<Rightarrow> copied_path k (args_pathname args)) @
     word_bytes (big_endian k) 4 (syscall_code tp) @
     word_bytes (big_endian k) 4 (case tp of Write args \<Rightarrow> args_fd args | _ \<Rightarrow> - 1) @
     replicate 4 0 @
     word_bytes (big_endian k) 8 (case tp of Write args \<Rightarrow> args_count args | _ \<Rightarrow> 0)"
proof -
  have "member_offsets 0 data_t =
     [(''pid'', 0), (''comm'', 4), (''filename'', 20), (''syscall'', 276), (''fd'', 280),
      (''count'', 288)]"
    by (simp add: data_t_def align_up_def TASK_COMM_LEN_def)
  moreover have "length (record_of k stk tp) = 296"
    by (cases tp) (simp_all add: openat_members write_members unlinkat_members)
  moreover have "record_of k stk tp =
     word_bytes (big_endian k) 4 (task_tgid k) @
     strscpy_pad (task_comm k) 16 @
     (case tp of
        Openat args \<Rightarrow> copied_path k (args_filename args)
      | Write args \<Rightarrow> replicate 256 0
      | Unlinkat args \<Rightarrow> copied_path k (args_pathname args)) @
     word_bytes (big_endian k) 4 (syscall_code tp) @
     word_bytes (big_endian k) 4 (case tp of Write args \<Rightarrow> args_fd args | _ \<Rightarrow> - 1) @
     replicate 4 0 @
     word_bytes (big_endian k) 8 (case tp of Write args \<Rightarrow> args_count args | _ \<Rightarrow> 0)"
    by (cases tp) (simp_all only: record_of.simps syscall_code.simps tracepoint.case
        openat_record_bytes write_record_bytes unlinkat_record_bytes)
  ultimately show ?thesis
    by (simp only: offsets)
qed

text \<open>
  C9. Every probe returns 0 for every input, after it has submitted its record: the
  channel holds the record when the ring had room and counts a loss when it had not.
\<close>

theorem probes_return_zero:
  "fst (fire k events stk tp) = 0 \<and>
   fst (sys_enter_openat k events stk oa) = 0 \<and>
   fst (sys_enter_write k events stk wa) = 0 \<and>
   fst (sys_enter_unlinkat k events stk ua) = 0 \<and>
   snd (fire k events stk tp) =
     (if length (ring events) < capacity events
      then events\<lparr>ring := ring events @ [record_of k stk tp]\<rparr>
      else events\<lparr>lost := lost events + 1\<rparr>)"
  by (simp add: fire_channel sys_enter_openat_def sys_enter_write_def sys_enter_unlinkat_def
      Let_def)

text \<open>
  C10, as the specification states it: two invocations with the same task and the
  same syscall arguments give the same record. They do not when the user memory
  behind the pointer differs: the same task calls \<^verbatim>\<open>openat\<close> with the same pointer,
  once with the string \<^verbatim>\<open>/a\<close> readable there and once with nothing readable, and
  the two records differ in their path.
\<close>

theorem same_arguments_different_records_counterexample:
  "task_tgid blank_kernel = task_tgid demo_kernel \<and>
   task_pid blank_kernel = task_pid demo_kernel \<and>
   task_comm blank_kernel = task_comm demo_kernel \<and>
   big_endian blank_kernel = big_endian demo_kernel \<and>
   record_of blank_kernel demo_stack (Openat \<lparr>args_filename = 0x1000\<rparr>) \<noteq>
     record_of demo_kernel demo_stack (Openat \<lparr>args_filename = 0x1000\<rparr>) \<and>
   snd (fire blank_kernel demo_channel demo_stack (Openat \<lparr>args_filename = 0x1000\<rparr>)) \<noteq>
     snd (fire demo_kernel demo_channel demo_stack (Openat \<lparr>args_filename = 0x1000\<rparr>))"
proof -
  have "path_read_faults blank_kernel 0x1000"
    using do_strncpy_fault [of blank_mem "0x1000" "[]" 256]
    by (simp add: path_read_faults_def blank_kernel_def blank_mem_def)
  then have a: "cstring (data_filename (openat_record blank_kernel demo_stack
      \<lparr>args_filename = 0x1000\<rparr>)) = []"
    by (simp add: openat_members copied_path_fault cstring_zeros)
  have "user_bytes (user_mem demo_kernel) 0x1000 ([47, 97] @ [0])"
    by (simp add: demo_kernel_def demo_mem_def)
  then have "copied_path demo_kernel 0x1000 = [47, 97] @ replicate (256 - length [47 :: byte, 97]) 0"
    by (rule copied_path_short) simp_all
  then have "cstring (copied_path demo_kernel 0x1000) = [47, 97]"
    using cstring_padded [of "[47, 97]"] by simp
  then have b: "cstring (data_filename (openat_record demo_kernel demo_stack
      \<lparr>args_filename = 0x1000\<rparr>)) = [47, 97]"
    by (simp add: openat_members)
  have n: "openat_record blank_kernel demo_stack \<lparr>args_filename = 0x1000\<rparr> \<noteq>
      openat_record demo_kernel demo_stack \<lparr>args_filename = 0x1000\<rparr>"
    using a b by auto
  then show ?thesis
    by (simp add: fire_channel demo_channel_def blank_kernel_def)
qed

text \<open>
  C10, amended: every probe zeroes its whole record before it fills it, so the
  record does not depend on what the stack held before. Two runs on one host by
  tasks with the same thread-group id and name, with the same arguments and the
  same user memory, give the same bytes and leave the channel in the same state,
  whatever their stacks held; for a \<^verbatim>\<open>write\<close> the user memory does not matter. The
  padding between \<^verbatim>\<open>fd\<close> and \<^verbatim>\<open>count\<close> is zero, and in \<^verbatim>\<open>comm\<close> and in the path buffer
  every byte behind the string is zero.
\<close>

theorem record_independent_of_stack:
  "(task_tgid k' = task_tgid k \<and> task_comm k' = task_comm k \<and> big_endian k' = big_endian k \<and>
      user_mem k' = user_mem k \<longrightarrow>
        record_of k' stk' tp = record_of k stk tp \<and>
        snd (fire k' events stk' tp) = snd (fire k events stk tp)) \<and>
   (task_tgid k' = task_tgid k \<and> task_comm k' = task_comm k \<and> big_endian k' = big_endian k \<longrightarrow>
        record_of k' stk' (Write wa) = record_of k stk (Write wa) \<and>
        snd (fire k' events stk' (Write wa)) = snd (fire k events stk (Write wa))) \<and>
   record_of k stk tp = record_of k stk' tp \<and>
   snd (fire k events stk tp) = snd (fire k events stk' tp) \<and>
   length (record_of k stk tp) = sizeof_data_t \<and>
   member (record_of k stk tp) (offsetof ''fd'' + 4) (offsetof ''count'' - offsetof ''fd'' - 4) =
     replicate 4 0 \<and>
   data_comm (record_of k stk tp) =
     cstring (data_comm (record_of k stk tp)) @
     replicate (TASK_COMM_LEN - length (cstring (data_comm (record_of k stk tp)))) 0 \<and>
   data_filename (record_of k stk tp) =
     cstring (data_filename (record_of k stk tp)) @
     replicate (256 - length (cstring (data_filename (record_of k stk tp)))) 0"
proof -
  have p: "copied_path k' q = copied_path k q" if "user_mem k' = user_mem k" for q
    using that by (simp add: copied_path_def bpf_probe_read_user_str_def)
  have g: "record_of k' stk' tp = record_of k stk tp"
    if "task_tgid k' = task_tgid k" "task_comm k' = task_comm k" "big_endian k' = big_endian k"
      "user_mem k' = user_mem k"
    using that p
    by (cases tp)
      (simp_all only: record_of.simps openat_record_bytes write_record_bytes unlinkat_record_bytes)
  have g': "snd (fire k' events stk' tp) = snd (fire k events stk tp)"
    if "task_tgid k' = task_tgid k" "task_comm k' = task_comm k" "big_endian k' = big_endian k"
      "user_mem k' = user_mem k"
    using g [OF that] by (simp only: fire_channel)
  have w: "record_of k' stk' (Write wa) = record_of k stk (Write wa)"
    if "task_tgid k' = task_tgid k" "task_comm k' = task_comm k" "big_endian k' = big_endian k"
    using that by (simp only: record_of.simps write_record_bytes)
  have w': "snd (fire k' events stk' (Write wa)) = snd (fire k events stk (Write wa))"
    if "task_tgid k' = task_tgid k" "task_comm k' = task_comm k" "big_endian k' = big_endian k"
    using w [OF that] by (simp only: fire_channel)
  have a: "record_of k stk tp = record_of k stk' tp"
    by (cases tp)
      (simp_all only: record_of.simps openat_record_bytes write_record_bytes unlinkat_record_bytes)
  have b: "snd (fire k events stk tp) = snd (fire k events stk' tp)"
    by (simp only: fire_channel a)
  have c: "length (record_of k stk tp) = sizeof_data_t"
    by (cases tp) (simp_all add: openat_members write_members unlinkat_members offsets)
  have d: "member (record_of k stk tp) (offsetof ''fd'' + 4) (offsetof ''count'' - offsetof ''fd'' - 4) =
     replicate 4 0"
    by (cases tp) (simp_all add: openat_members write_members unlinkat_members offsets member_def)
  have "data_comm (record_of k stk tp) = strscpy_pad (task_comm k) 16"
    by (cases tp) (simp_all add: openat_members write_members unlinkat_members)
  then have e: "data_comm (record_of k stk tp) =
     cstring (data_comm (record_of k stk tp)) @
     replicate (TASK_COMM_LEN - length (cstring (data_comm (record_of k stk tp)))) 0"
    using strscpy_pad_shape [of "task_comm k" 16] by (simp add: TASK_COMM_LEN_def)
  have f: "data_filename (record_of k stk tp) =
     cstring (data_filename (record_of k stk tp)) @
     replicate (256 - length (cstring (data_filename (record_of k stk tp)))) 0"
  proof (cases tp)
    case (Openat args)
    then show ?thesis
      using copied_path_terminated(3) [of k "args_filename args"] by (simp add: openat_members)
  next
    case (Write args)
    then show ?thesis
      by (simp add: write_members cstring_zeros)
  next
    case (Unlinkat args)
    then show ?thesis
      using copied_path_terminated(3) [of k "args_pathname args"] by (simp add: unlinkat_members)
  qed
  from g g' w w' a b c d e f show ?thesis by blast
qed

theorem record_independent_of_stack_witness:
  "record_of (demo_kernel\<lparr>task_pid := 11\<rparr>) other_stack (Openat \<lparr>args_filename = 0x1000\<rparr>) =
     record_of demo_kernel demo_stack (Openat \<lparr>args_filename = 0x1000\<rparr>) \<and>
   snd (fire (demo_kernel\<lparr>task_pid := 11\<rparr>) demo_channel other_stack
       (Openat \<lparr>args_filename = 0x1000\<rparr>)) =
     snd (fire demo_kernel demo_channel demo_stack (Openat \<lparr>args_filename = 0x1000\<rparr>)) \<and>
   record_of blank_kernel other_stack (Write \<lparr>args_fd = 3, args_count = 4096\<rparr>) =
     record_of demo_kernel demo_stack (Write \<lparr>args_fd = 3, args_count = 4096\<rparr>)"
proof -
  note t = record_independent_of_stack [of "demo_kernel\<lparr>task_pid := 11\<rparr>" demo_kernel
      other_stack "Openat \<lparr>args_filename = 0x1000\<rparr>" demo_stack demo_channel]
  note t' = record_independent_of_stack [of blank_kernel demo_kernel
      other_stack "Openat \<lparr>args_filename = 0x1000\<rparr>" demo_stack demo_channel
      "\<lparr>args_fd = 3, args_count = 4096\<rparr>"]
  have h: "task_tgid (demo_kernel\<lparr>task_pid := 11\<rparr>) = task_tgid demo_kernel \<and>
      task_comm (demo_kernel\<lparr>task_pid := 11\<rparr>) = task_comm demo_kernel \<and>
      big_endian (demo_kernel\<lparr>task_pid := 11\<rparr>) = big_endian demo_kernel \<and>
      user_mem (demo_kernel\<lparr>task_pid := 11\<rparr>) = user_mem demo_kernel"
    by simp
  have h': "task_tgid blank_kernel = task_tgid demo_kernel \<and>
      task_comm blank_kernel = task_comm demo_kernel \<and>
      big_endian blank_kernel = big_endian demo_kernel"
    by (simp add: blank_kernel_def)
  from t h have "record_of (demo_kernel\<lparr>task_pid := 11\<rparr>) other_stack
        (Openat \<lparr>args_filename = 0x1000\<rparr>) =
      record_of demo_kernel demo_stack (Openat \<lparr>args_filename = 0x1000\<rparr>) \<and>
    snd (fire (demo_kernel\<lparr>task_pid := 11\<rparr>) demo_channel other_stack
        (Openat \<lparr>args_filename = 0x1000\<rparr>)) =
      snd (fire demo_kernel demo_channel demo_stack (Openat \<lparr>args_filename = 0x1000\<rparr>))"
    by blast
  moreover from t' h' have "record_of blank_kernel other_stack
        (Write \<lparr>args_fd = 3, args_count = 4096\<rparr>) =
      record_of demo_kernel demo_stack (Write \<lparr>args_fd = 3, args_count = 4096\<rparr>)"
    by blast
  ultimately show ?thesis by blast
qed

end
